theory Spec2Isabelle
  imports Complex_Main "HOL-Library.Sublist"
begin

section \<open>JavaScript values\<close>

text \<open>
  The values the module holds at run time: what the loader has made of the site
  configuration, and whatever \<^verbatim>\<open>import.meta\<close> holds. A number is an IEEE 754 double:
  a finite one is given by the rational it equals (the sign of zero is not kept), the
  three others stand apart. An object is the list of its own properties, looked up by
  name.
\<close>

datatype js_number = Finite rat | NaN | PosInfinity | NegInfinity

datatype js_value =
    JUndefined
  | JNull
  | JBool bool
  | JNum js_number
  | JStr string
  | JArr "js_value list"
  | JObj "(string \<times> js_value) list"

text \<open>
  The condition of \<^verbatim>\<open>c ? a : b\<close> is converted to a boolean: \<^verbatim>\<open>undefined\<close>,
  \<^verbatim>\<open>null\<close>, \<^verbatim>\<open>false\<close>, zero, \<^verbatim>\<open>NaN\<close> and the empty string are falsy,
  everything else is truthy.
\<close>

fun truthy :: "js_value \<Rightarrow> bool" where
  "truthy JUndefined = False"
| "truthy JNull = False"
| "truthy (JBool b) = b"
| "truthy (JNum (Finite q)) = (q \<noteq> 0)"
| "truthy (JNum NaN) = False"
| "truthy (JNum PosInfinity) = True"
| "truthy (JNum NegInfinity) = True"
| "truthy (JStr s) = (s \<noteq> [])"
| "truthy (JArr xs) = True"
| "truthy (JObj kvs) = True"

text \<open>
  \<^verbatim>\<open>v.name\<close> for the names this configuration reads (\<^verbatim>\<open>env\<close>, \<^verbatim>\<open>CI\<close>): a
  property of an object when the object has it, \<^verbatim>\<open>undefined\<close> otherwise. No
  primitive, array or prototype carries a property of either name.
\<close>

fun member :: "js_value \<Rightarrow> string \<Rightarrow> js_value" where
  "member (JObj kvs) name = (case map_of kvs name of None \<Rightarrow> JUndefined | Some v \<Rightarrow> v)"
| "member v name = JUndefined"

text \<open>
  Optional chaining \<^verbatim>\<open>v?.name\<close>: \<^verbatim>\<open>undefined\<close> when \<open>v\<close> is \<^verbatim>\<open>undefined\<close> or
  \<^verbatim>\<open>null\<close>, the member otherwise.
\<close>

definition opt_member :: "js_value \<Rightarrow> string \<Rightarrow> js_value" where
  "opt_member v name = (if v = JUndefined \<or> v = JNull then JUndefined else member v name)"

section \<open>Node's path module, POSIX flavour\<close>

text \<open>
  \<^verbatim>\<open>path.resolve\<close> and \<^verbatim>\<open>path.basename\<close> belong to the runtime, not to this
  repository; they are modelled after the algorithm of Node's \<^verbatim>\<open>lib/path.js\<close>.
  A path is a string, its separator is the slash.
\<close>

fun split_slash :: "string \<Rightarrow> string list" where
  "split_slash [] = ['''']"
| "split_slash (c # cs) =
     (let r = split_slash cs
      in if c = CHR ''/'' then [] # r else (c # hd r) # tl r)"

fun join_slash :: "string list \<Rightarrow> string" where
  "join_slash [] = []"
| "join_slash [s] = s"
| "join_slash (s # t # ss) = s @ ''/'' @ join_slash (t # ss)"

text \<open>
  One segment of \<^verbatim>\<open>normalizeString\<close>, on the stack of the segments kept so far (the
  last kept segment first): an empty segment and \<^verbatim>\<open>.\<close> are dropped; \<^verbatim>\<open>..\<close>
  removes the last kept segment, unless there is none or it is \<^verbatim>\<open>..\<close> itself, in
  which case \<^verbatim>\<open>..\<close> is kept when the path may climb above its start.
\<close>

fun normalize_step :: "bool \<Rightarrow> string \<Rightarrow> string list \<Rightarrow> string list" where
  "normalize_step allowAboveRoot seg st =
     (if seg = [] \<or> seg = ''.'' then st
      else if seg = ''..'' then
        (case st of
           [] \<Rightarrow> if allowAboveRoot then [''..''] else []
         | lastSeg # rest \<Rightarrow>
             if lastSeg = ''..'' then (if allowAboveRoot then ''..'' # st else st) else rest)
      else seg # st)"

definition normalize_segments :: "bool \<Rightarrow> string list \<Rightarrow> string list" where
  "normalize_segments allowAboveRoot segs = rev (fold (normalize_step allowAboveRoot) segs [])"

definition normalizeString :: "string \<Rightarrow> bool \<Rightarrow> string" where
  "normalizeString p allowAboveRoot =
     join_slash (normalize_segments allowAboveRoot (split_slash p))"

text \<open>
  The loop of \<^verbatim>\<open>path.resolve\<close>: the arguments from the last to the first and then
  the working directory, each non-empty one put in front of the path built so far, until
  one of them is absolute. The list given here is already in that order.
\<close>

fun resolve_loop :: "string list \<Rightarrow> string \<Rightarrow> string \<times> bool" where
  "resolve_loop [] resolvedPath = (resolvedPath, False)"
| "resolve_loop (p # ps) resolvedPath =
     (if p = [] then resolve_loop ps resolvedPath
      else if hd p = CHR ''/'' then (p @ ''/'' @ resolvedPath, True)
      else resolve_loop ps (p @ ''/'' @ resolvedPath))"

definition path_resolve :: "string \<Rightarrow> string list \<Rightarrow> string" where
  "path_resolve cwd args =
     (let (resolvedPath, resolvedAbsolute) = resolve_loop (rev args @ [cwd]) [];
          normalized = normalizeString resolvedPath (\<not> resolvedAbsolute)
      in if resolvedAbsolute then ''/'' @ normalized
         else if normalized \<noteq> [] then normalized else ''.'')"

text \<open>
  \<^verbatim>\<open>path.basename\<close> without a suffix: trailing slashes are skipped, and the result is
  what stands between the last remaining slash and the end.
\<close>

definition basename :: "string \<Rightarrow> string" where
  "basename p =
     rev (takeWhile (\<lambda>c. c \<noteq> CHR ''/'') (dropWhile (\<lambda>c. c = CHR ''/'') (rev p)))"

section \<open>Loading the site configuration\<close>

text \<open>
  The site configuration as it is written: a JSON document. A number is the rational its
  literal denotes; an object is its members in the order written, a name possibly more
  than once.
\<close>

datatype json =
    JsonNull
  | JsonBool bool
  | JsonNumber rat
  | JsonString string
  | JsonArray "json list"
  | JsonObject "(string \<times> json) list"

text \<open>
  The loader keeps a number as the double nearest to it, a tie going to the even
  significand. \<open>binary_exponent a\<close> is the exponent \<open>e\<close> with \<open>2^e \<le> a < 2^(e+1)\<close>,
  kept within the range of the format (-1022 for what lies below the normal numbers);
  the doubles at that exponent are the multiples of \<open>2^(e-52)\<close>. What rounds to \<open>2^1024\<close> or
  beyond is an infinity.
\<close>

definition two_powi :: "int \<Rightarrow> rat" where
  "two_powi k = (if 0 \<le> k then 2 ^ nat k else 1 / 2 ^ nat (- k))"

function exponent_up :: "int \<Rightarrow> rat \<Rightarrow> int" where
  "exponent_up e a = (if e < 1024 \<and> two_powi (e + 1) \<le> a then exponent_up (e + 1) a else e)"
  by pat_completeness auto
termination
  by (relation "measure (\<lambda>(e, a). nat (1024 - e))") auto

function exponent_down :: "int \<Rightarrow> rat \<Rightarrow> int" where
  "exponent_down e a = (if - 1022 < e \<and> a < two_powi e then exponent_down (e - 1) a else e)"
  by pat_completeness auto
termination
  by (relation "measure (\<lambda>(e, a). nat (e + 1022))") auto

definition binary_exponent :: "rat \<Rightarrow> int" where
  "binary_exponent a = (if 1 \<le> a then exponent_up 0 a else exponent_down 0 a)"

definition round_half_even :: "rat \<Rightarrow> int" where
  "round_half_even x =
     (let f = \<lfloor>x\<rfloor>; r = x - of_int f
      in if r < 1 / 2 then f else if 1 / 2 < r then f + 1 else if even f then f else f + 1)"

definition double_of :: "rat \<Rightarrow> js_number" where
  "double_of q =
     (if q = 0 then Finite 0
      else
        let a = \<bar>q\<bar>;
            ulp = two_powi (binary_exponent a - 52);
            r = of_int (round_half_even (a / ulp)) * ulp
        in if two_powi 1024 \<le> r then (if 0 < q then PosInfinity else NegInfinity)
           else Finite (if 0 < q then r else - r))"

text \<open>
  The own properties of the object made from a list of members: a name written more
  than once keeps its place of first appearance and the value written last. Array
  indices (the decimal numerals below \<open>2^32 - 1\<close>, without a leading zero) come first, in
  ascending order, the other names follow in the order written.
\<close>

definition is_digit :: "char \<Rightarrow> bool" where
  "is_digit c = ((48::int) \<le> of_char c \<and> of_char c \<le> (57::int))"

definition decimal_value :: "string \<Rightarrow> int" where
  "decimal_value s = fold (\<lambda>c n. 10 * n + (of_char c - 48)) s 0"

definition is_array_index :: "string \<Rightarrow> bool" where
  "is_array_index s =
     (s \<noteq> [] \<and> list_all is_digit s \<and> (s = ''0'' \<or> hd s \<noteq> CHR ''0'')
      \<and> decimal_value s < 2 ^ 32 - 1)"

definition own_property_keys :: "string list \<Rightarrow> string list" where
  "own_property_keys names =
     (let firsts = rev (remdups (rev names))
      in sort_key decimal_value (filter is_array_index firsts)
         @ filter (\<lambda>k. \<not> is_array_index k) firsts)"

definition own_properties :: "(string \<times> js_value) list \<Rightarrow> (string \<times> js_value) list" where
  "own_properties members =
     map (\<lambda>k. (k, case map_of (rev members) k of None \<Rightarrow> JUndefined | Some v \<Rightarrow> v))
         (own_property_keys (map fst members))"

text \<open>The value the loader makes of a JSON document.\<close>

primrec json_value :: "json \<Rightarrow> js_value" where
  "json_value JsonNull = JNull"
| "json_value (JsonBool b) = JBool b"
| "json_value (JsonNumber q) = JNum (double_of q)"
| "json_value (JsonString s) = JStr s"
| "json_value (JsonArray js) = JArr (map json_value js)"
| "json_value (JsonObject ms) = JObj (own_properties (map (map_prod id json_value) ms))"

text \<open>
  \<^verbatim>\<open>import { webserver_port } from '../../../sites/common_site_config.json'\<close> is linked
  before the body of the module runs. It fails when the file cannot be loaded, and when
  the value made of the document is not an object with a property of the imported name;
  otherwise it binds the value of that property.
\<close>

datatype load_failure = ModuleNotFound | NoMatchingExport

datatype error = ConfigurationLoadError load_failure | PathResolutionError

definition import_named :: "json option \<Rightarrow> string \<Rightarrow> error + js_value" where
  "import_named file name =
     (case file of
        None \<Rightarrow> Inl (ConfigurationLoadError ModuleNotFound)
      | Some document \<Rightarrow>
          (case json_value document of
             JObj props \<Rightarrow>
               (case map_of props name of
                  None \<Rightarrow> Inl (ConfigurationLoadError NoMatchingExport)
                | Some v \<Rightarrow> Inr v)
           | _ \<Rightarrow> Inl (ConfigurationLoadError NoMatchingExport)))"

section \<open>The configuration object\<close>

record 'x server_options =
  port :: int
  proxy :: "'x"

record resolve_options =
  "alias" :: "(string \<times> string) list"

record build_options =
  outDir :: string
  emptyOutDir :: bool
  target :: string
  sourcemap :: js_value

record optimizeDeps_options =
  "include" :: "string list"

record ('p, 'x) user_config =
  plugins :: "'p list"
  server :: "'x server_options"
  resolve :: resolve_options
  build :: build_options
  optimizeDeps :: optimizeDeps_options

text \<open>
  What the module reads from the process when it is evaluated: the working directory,
  the \<^verbatim>\<open>import.meta\<close> object, and the site configuration file (\<open>None\<close> when it
  cannot be loaded). The variables of the process environment are part of the state, and
  the module reads none of them.
\<close>

record environment =
  cwd :: string
  import_meta :: js_value
  process_env :: "(string \<times> string) list"
  common_site_config :: "json option"

text \<open>
  The default export of \<^verbatim>\<open>vite.config.js\<close>. The bindings of the module's own
  scope are parameters: \<^verbatim>\<open>getProxyOptions\<close> (of frappe-ui), the plugin that
  \<^verbatim>\<open>vue()\<close> returns, and \<^verbatim>\<open>__dirname\<close>, the directory of the configuration
  file. \<^verbatim>\<open>defineConfig\<close> returns its argument.
\<close>

definition vite_config ::
  "(js_value \<Rightarrow> 'x) \<Rightarrow> 'p \<Rightarrow> string \<Rightarrow> environment \<Rightarrow> error + ('p, 'x) user_config" where
  "vite_config getProxyOptions vue dirname env =
     (case import_named (common_site_config env) ''webserver_port'' of
        Inl e \<Rightarrow> Inl e
      | Inr webserver_port \<Rightarrow>
          Inr \<lparr> plugins = [vue],
                server = \<lparr> port = 8080,
                           proxy = getProxyOptions (JObj [(''port'', webserver_port)]) \<rparr>,
                resolve = \<lparr> alias = [(''@'', path_resolve (cwd env) [dirname, ''src''])] \<rparr>,
                build = \<lparr> outDir = ''../'' @ basename (path_resolve (cwd env) [''..''])
                                      @ ''/public/frontend'',
                          emptyOutDir = True,
                          target = ''es2015'',
                          sourcemap =
                            (if truthy (opt_member (opt_member (import_meta env) ''env'') ''CI'')
                             then JBool False else JStr ''inline'') \<rparr>,
                optimizeDeps =
                  \<lparr> include = [''feather-icons'', ''showdown'', ''engine.io-client''] \<rparr> \<rparr>)"

section \<open>Notions used by the properties\<close>

text \<open>The value the module tests for its source maps: \<^verbatim>\<open>import.meta?.env?.CI\<close>.\<close>

definition ci_signal :: "environment \<Rightarrow> js_value" where
  "ci_signal env = opt_member (opt_member (import_meta env) ''env'') ''CI''"


text \<open>Whether a JSON document has a top-level member of a name.\<close>

fun has_member :: "json \<Rightarrow> string \<Rightarrow> bool" where
  "has_member (JsonObject ms) name = (map_of ms name \<noteq> None)"
| "has_member j name = False"

text \<open>
  A directory name: not empty, without a slash, and neither \<^verbatim>\<open>.\<close> nor \<^verbatim>\<open>..\<close>.
  The absolute path \<^verbatim>\<open>/n1/.../nk\<close> of a list of names; the empty list gives the root.
\<close>

definition is_name :: "string \<Rightarrow> bool" where
  "is_name s = (s \<noteq> [] \<and> CHR ''/'' \<notin> set s \<and> s \<noteq> ''.'' \<and> s \<noteq> ''..'')"

definition abs_path :: "string list \<Rightarrow> string" where
  "abs_path names = ''/'' @ join_slash names"

text \<open>
  The build tool takes a relative \<^verbatim>\<open>build.outDir\<close> from the project root, which is the
  working directory when the configuration names no other root.
\<close>

definition designated_directory :: "string \<Rightarrow> string \<Rightarrow> string" where
  "designated_directory projectRoot dir = path_resolve projectRoot [projectRoot, dir]"

text \<open>
  A directory lies inside another (or is that directory) when the names leading to the
  second are the first names leading to the first.
\<close>

definition path_segments :: "string \<Rightarrow> string list" where
  "path_segments p = normalize_segments False (split_slash p)"

definition nested_inside :: "string \<Rightarrow> string \<Rightarrow> bool" where
  "nested_inside d p = prefix (path_segments p) (path_segments d)"

text \<open>An installation of the usual shape, and the configuration it resolves to.\<close>

definition example_env :: environment where
  "example_env =
     \<lparr> cwd = ''/work/apps/myapp/frontend'',
       import_meta = JObj [(''env'', JObj [(''CI'', JBool True)])],
       process_env = [(''CI'', ''true'')],
       common_site_config = Some (JsonObject [(''webserver_port'', JsonNumber 8000)]) \<rparr>"

definition example_config :: "(unit, js_value) user_config" where
  "example_config =
     \<lparr> plugins = [()],
       server = \<lparr> port = 8080, proxy = JObj [(''port'', JNum (Finite 8000))] \<rparr>,
       resolve = \<lparr> alias = [(''@'', ''/work/apps/myapp/frontend/src'')] \<rparr>,
       build = \<lparr> outDir = ''../myapp/public/frontend'',
                 emptyOutDir = True,
                 target = ''es2015'',
                 sourcemap = JBool False \<rparr>,
       optimizeDeps = \<lparr> include = [''feather-icons'', ''showdown'', ''engine.io-client''] \<rparr> \<rparr>"

section \<open>What the loader keeps\<close>

lemma two_powi_nonneg: "0 \<le> k \<Longrightarrow> two_powi k = 2 ^ nat k"
  by (simp add: two_powi_def)

lemma two_powi_nonpos: "k \<le> 0 \<Longrightarrow> two_powi k = 1 / 2 ^ nat (- k)"
  by (cases "k = 0") (simp_all add: two_powi_def)

lemma exponent_up_ge: "e \<le> exponent_up e a"
proof (induction e a rule: exponent_up.induct)
  case (1 e a)
  show ?case
  proof (cases "e < 1024 \<and> two_powi (e + 1) \<le> a")
    case True
    with 1 have "e + 1 \<le> exponent_up (e + 1) a" by simp
    moreover from True have "exponent_up e a = exponent_up (e + 1) a"
      by (subst exponent_up.simps) simp
    ultimately show ?thesis by simp
  next
    case False
    then have "exponent_up e a = e" by (subst exponent_up.simps) auto
    then show ?thesis by simp
  qed
qed

lemma exponent_up_le: "two_powi e \<le> a \<Longrightarrow> two_powi (exponent_up e a) \<le> a"
proof (induction e a rule: exponent_up.induct)
  case (1 e a)
  show ?case
  proof (cases "e < 1024 \<and> two_powi (e + 1) \<le> a")
    case True
    with 1 have "two_powi (exponent_up (e + 1) a) \<le> a" by simp
    moreover from True have "exponent_up e a = exponent_up (e + 1) a"
      by (subst exponent_up.simps) simp
    ultimately show ?thesis by simp
  next
    case False
    then have "exponent_up e a = e" by (subst exponent_up.simps) auto
    with 1 show ?thesis by simp
  qed
qed

lemma round_half_even_of_int: "round_half_even (of_int z) = z"
  by (simp add: round_half_even_def)

text \<open>An integer of magnitude up to \<open>2^53\<close> is a double, and is kept as it is.\<close>

lemma double_of_int_exact:
  assumes "\<bar>n\<bar> \<le> 2 ^ 53"
  shows "double_of (of_int n) = Finite (of_int n)"
proof (cases "n = 0")
  case True
  then show ?thesis by (simp add: double_of_def)
next
  case False
  define a :: rat where "a = of_int \<bar>n\<bar>"
  define e where "e = exponent_up 0 a"
  from False have a1: "1 \<le> a" unfolding a_def by (simp add: abs_if)
  have a53: "a \<le> 2 ^ 53"
  proof -
    have "(of_int \<bar>n\<bar> :: rat) \<le> of_int (2 ^ 53)" using assms by (simp only: of_int_le_iff)
    then show ?thesis by (simp add: a_def)
  qed
  have e0: "0 \<le> e" unfolding e_def by (rule exponent_up_ge)
  have "two_powi 0 \<le> a" using a1 by (simp add: two_powi_def)
  then have "two_powi e \<le> a" unfolding e_def by (rule exponent_up_le)
  then have pe: "(2::rat) ^ nat e \<le> a" using e0 by (simp add: two_powi_nonneg)
  with a53 have "(2::rat) ^ nat e \<le> 2 ^ 53" by simp
  then have e53: "nat e \<le> 53" by (rule power_le_imp_le_exp[rotated]) simp
  have be: "binary_exponent a = e" using a1 by (simp add: binary_exponent_def e_def)
  define ulp where "ulp = two_powi (e - 52)"
  have r: "of_int (round_half_even (a / ulp)) * ulp = a"
  proof (cases "nat e \<le> 52")
    case True
    define j where "j = nat (52 - e)"
    have "e - 52 \<le> 0" using True e0 by simp
    then have u: "ulp = 1 / 2 ^ j" unfolding ulp_def j_def
      by (simp add: two_powi_nonpos)
    have "a / ulp = of_int (\<bar>n\<bar> * 2 ^ j)" by (simp add: u a_def)
    then have "round_half_even (a / ulp) = \<bar>n\<bar> * 2 ^ j"
      by (simp only: round_half_even_of_int)
    then show ?thesis by (simp add: u a_def)
  next
    case False
    with e53 have e: "e = 53" using e0 by simp
    with pe a53 have a: "a = 2 ^ 53" by simp
    have u: "ulp = 2" by (simp add: ulp_def e two_powi_def)
    have "a / ulp = of_int (2 ^ 52)" by (simp add: a u)
    then have "round_half_even (a / ulp) = 2 ^ 52"
      by (simp only: round_half_even_of_int)
    then show ?thesis by (simp add: a u)
  qed
  have small: "\<not> two_powi 1024 \<le> a"
  proof -
    have "(2::rat) ^ 53 < 2 ^ 1024" by (rule power_strict_increasing) simp_all
    with a53 show ?thesis by (simp add: two_powi_def)
  qed
  have abs: "\<bar>of_int n :: rat\<bar> = a" by (simp add: a_def)
  have sign: "(if 0 < (of_int n :: rat) then a else - a) = of_int n"
    by (simp add: a_def abs_if)
  have q0: "(of_int n :: rat) \<noteq> 0" using False by simp
  show ?thesis
    unfolding double_of_def Let_def abs be
    using r small sign q0 by (auto simp add: ulp_def split: if_splits)
qed

lemma double_of_8000: "double_of 8000 = Finite 8000"
  using double_of_int_exact[of 8000] by simp



text \<open>Looking a name up in the own properties finds the value written last.\<close>

lemma map_of_own_properties: "map_of (own_properties ms) = map_of (rev ms)"
proof
  fix k
  have keys: "set (own_property_keys (map fst ms)) = fst ` set ms"
    by (auto simp: own_property_keys_def Let_def)
  show "map_of (own_properties ms) k = map_of (rev ms) k"
  proof (cases "k \<in> fst ` set ms")
    case True
    then have "k \<in> fst ` set (rev ms)" by simp
    then obtain v where v: "map_of (rev ms) k = Some v"
      by (meson map_of_eq_None_iff not_Some_eq)
    with True keys show ?thesis
      by (simp add: own_properties_def map_of_map_restrict restrict_map_def)
  next
    case False
    then have "map_of (rev ms) k = None" by (simp add: map_of_eq_None_iff)
    with False keys show ?thesis
      by (simp add: own_properties_def map_of_map_restrict restrict_map_def)
  qed
qed

lemma map_of_map_prod_id:
  "map_of (map (map_prod id f) ms) k = map_option f (map_of ms k)"
  by (induction ms) auto

lemma import_named_object:
  "import_named (Some (JsonObject ms)) name =
     (case map_of (rev ms) name of
        None \<Rightarrow> Inl (ConfigurationLoadError NoMatchingExport)
      | Some j \<Rightarrow> Inr (json_value j))"
proof -
  have "map_of (own_properties (map (map_prod id json_value) ms)) name
          = map_option json_value (map_of (rev ms) name)"
    by (simp add: map_of_own_properties map_of_map_prod_id rev_map)
  then show ?thesis
    by (simp add: import_named_def split: option.splits)
qed

lemma import_named_no_member:
  "\<not> has_member j name \<Longrightarrow>
   import_named (Some j) name = Inl (ConfigurationLoadError NoMatchingExport)"
proof (cases j)
  case (JsonObject ms)
  assume "\<not> has_member j name"
  with JsonObject have "name \<notin> fst ` set ms" by (simp add: map_of_eq_None_iff)
  then have "map_of (rev ms) name = None" by (simp add: map_of_eq_None_iff)
  with JsonObject show ?thesis by (simp add: import_named_object)
qed (simp_all add: import_named_def)

lemma example_site_import:
  "import_named (Some (JsonObject [(''webserver_port'', JsonNumber 8000)])) ''webserver_port''
     = Inr (JNum (Finite 8000))"
  by (simp add: import_named_object double_of_8000)

section \<open>Evaluating the example\<close>

lemma path_resolve_example_parent:
  "path_resolve ''/work/apps/myapp/frontend'' [''..''] = ''/work/apps/myapp''"
  by (simp add: path_resolve_def normalizeString_def normalize_segments_def)

lemma path_resolve_example_src:
  "path_resolve ''/work/apps/myapp/frontend'' [''/work/apps/myapp/frontend'', ''src'']
     = ''/work/apps/myapp/frontend/src''"
  by (simp add: path_resolve_def normalizeString_def normalize_segments_def)

lemma example_resolves:
  "vite_config id () ''/work/apps/myapp/frontend'' example_env = Inr example_config"
  by (simp add: vite_config_def example_env_def example_site_import example_config_def opt_member_def
      path_resolve_example_parent path_resolve_example_src basename_def)






section \<open>The shape of every resolved configuration\<close>

lemma vite_config_InrD:
  assumes "vite_config g v d env = Inr cfg"
  shows "\<exists>w. import_named (common_site_config env) ''webserver_port'' = Inr w \<and>
    cfg = \<lparr> plugins = [v],
            server = \<lparr> port = 8080, proxy = g (JObj [(''port'', w)]) \<rparr>,
            resolve = \<lparr> alias = [(''@'', path_resolve (cwd env) [d, ''src''])] \<rparr>,
            build = \<lparr> outDir = ''../'' @ basename (path_resolve (cwd env) [''..''])
                                  @ ''/public/frontend'',
                      emptyOutDir = True,
                      target = ''es2015'',
                      sourcemap =
                        (if truthy (ci_signal env) then JBool False else JStr ''inline'') \<rparr>,
            optimizeDeps =
              \<lparr> include = [''feather-icons'', ''showdown'', ''engine.io-client''] \<rparr> \<rparr>"
  using assms by (auto simp: vite_config_def ci_signal_def split: sum.splits)

section \<open>Paths made of names\<close>

lemma split_slash_not_Nil: "split_slash s \<noteq> []"
  by (induction s) (auto simp: Let_def)

lemma split_slash_append: "split_slash (a @ CHR ''/'' # b) = split_slash a @ split_slash b"
proof (induction a)
  case Nil
  show ?case by simp
next
  case (Cons c a)
  then show ?case
    using split_slash_not_Nil[of a] by (cases "split_slash a") (auto simp: Let_def)
qed

lemma split_slash_no_slash: "CHR ''/'' \<notin> set s \<Longrightarrow> split_slash s = [s]"
  by (induction s) (auto simp: Let_def)

lemma join_slash_snoc: "ss \<noteq> [] \<Longrightarrow> join_slash (ss @ [s]) = join_slash ss @ CHR ''/'' # s"
  by (induction ss rule: join_slash.induct) auto

lemma split_join_names:
  "list_all is_name names \<Longrightarrow> names \<noteq> [] \<Longrightarrow> split_slash (join_slash names) = names"
proof (induction names rule: join_slash.induct)
  case 1
  then show ?case by simp
next
  case (2 s)
  then show ?case by (simp add: is_name_def split_slash_no_slash)
next
  case (3 s t ss)
  have "split_slash (s @ CHR ''/'' # join_slash (t # ss)) = split_slash s @ split_slash (join_slash (t # ss))"
    by (rule split_slash_append)
  with 3 show ?case by (simp add: is_name_def split_slash_no_slash)
qed

lemma fold_normalize_names:
  "list_all is_name names \<Longrightarrow> fold (normalize_step a) names st = rev names @ st"
  by (induction names arbitrary: st) (auto simp: is_name_def)

lemma split_abs_path:
  "list_all is_name names \<Longrightarrow>
   split_slash (abs_path names) = [] # (if names = [] then [''''] else names)"
  by (simp add: abs_path_def split_join_names)

lemma fold_normalize_abs_path:
  "list_all is_name names \<Longrightarrow>
   fold (normalize_step a) (split_slash (abs_path names)) [] = rev names"
  by (simp add: split_abs_path fold_normalize_names)

lemma abs_path_absolute: "abs_path names \<noteq> [] \<and> hd (abs_path names) = CHR ''/''"
  by (simp add: abs_path_def)

text \<open>
  An absolute first argument followed by a relative one: the working directory is not
  consulted, and the second argument is normalized on top of the names of the first.
\<close>

lemma path_resolve_abs_rel:
  assumes "list_all is_name names" and "q \<noteq> []" and "hd q \<noteq> CHR ''/''"
  shows "path_resolve wd [abs_path names, q]
       = ''/'' @ join_slash (rev (fold (normalize_step False) (split_slash q) (rev names)))"
proof -
  have loop: "resolve_loop (rev [abs_path names, q] @ [wd]) []
                = (abs_path names @ CHR ''/'' # q @ ''/'', True)"
    using assms(2,3) abs_path_absolute[of names] by simp
  have "split_slash (abs_path names @ CHR ''/'' # q @ ''/'')
          = split_slash (abs_path names) @ split_slash (q @ ''/'')"
    by (rule split_slash_append)
  also have "split_slash (q @ ''/'') = split_slash q @ ['''']"
    using split_slash_append[of q "[]"] by simp
  finally have "fold (normalize_step False) (split_slash (abs_path names @ CHR ''/'' # q @ ''/'')) []
     = fold (normalize_step False) (split_slash q) (rev names)"
    using assms(1) by (simp add: fold_normalize_abs_path)
  with loop show ?thesis
    by (simp add: path_resolve_def normalizeString_def normalize_segments_def)
qed

lemma path_resolve_parent:
  assumes "list_all is_name names"
  shows "path_resolve (abs_path names) [''..''] = abs_path (butlast names)"
proof -
  have loop: "resolve_loop (rev [''..''] @ [abs_path names]) []
                = (abs_path names @ ''/../'', True)"
    using abs_path_absolute[of names] by simp
  have "split_slash (abs_path names @ ''/../'') = split_slash (abs_path names) @ [''..'', []]"
    using split_slash_append[of "abs_path names" "''../''"] by simp
  then have "fold (normalize_step False) (split_slash (abs_path names @ ''/../'')) []
     = normalize_step False ''..'' (rev names)"
    using assms by (simp add: fold_normalize_abs_path)
  also have "\<dots> = rev (butlast names)"
    using assms by (cases names rule: rev_cases) (auto simp: is_name_def)
  finally show ?thesis using loop
    by (simp add: path_resolve_def normalizeString_def normalize_segments_def abs_path_def)
qed

lemma basename_abs_path:
  assumes "list_all is_name names"
  shows "basename (abs_path names) = (if names = [] then [] else last names)"
proof (cases names rule: rev_cases)
  case Nil
  then show ?thesis by (simp add: basename_def abs_path_def)
next
  case (snoc ns n)
  with assms have n: "n \<noteq> []" "CHR ''/'' \<notin> set n" by (auto simp: is_name_def)
  have "abs_path names = (if ns = [] then [] else CHR ''/'' # join_slash ns) @ CHR ''/'' # n"
    using snoc by (auto simp: abs_path_def join_slash_snoc)
  then obtain pre where pre: "abs_path names = pre @ CHR ''/'' # n" by blast
  have "dropWhile (\<lambda>c. c = CHR ''/'') (rev n @ CHR ''/'' # rev pre) = rev n @ CHR ''/'' # rev pre"
    using n by (cases "rev n") (auto simp: )
  moreover have "takeWhile (\<lambda>c. c \<noteq> CHR ''/'') (rev n @ CHR ''/'' # rev pre) = rev n"
  proof -
    have "\<forall>x\<in>set (rev n). x \<noteq> CHR ''/''" using n by auto
    then show ?thesis by (simp add: takeWhile_tail)
  qed
  ultimately show ?thesis using snoc pre by (simp add: basename_def)
qed

lemma path_segments_abs_path:
  "list_all is_name names \<Longrightarrow> path_segments (abs_path names) = names"
  by (simp add: path_segments_def normalize_segments_def fold_normalize_abs_path)

lemma split_outDir:
  assumes "is_name app"
  shows "split_slash (''../'' @ app @ ''/public/frontend'') = [''..'', app, ''public'', ''frontend'']"
proof -
  have "split_slash (app @ CHR ''/'' # ''public/frontend'') = split_slash app @ split_slash ''public/frontend''"
    by (rule split_slash_append)
  moreover have "split_slash app = [app]"
    using assms by (simp add: is_name_def split_slash_no_slash)
  moreover have "split_slash ''public/frontend'' = [''public'', ''frontend'']"
    by simp
  moreover have "split_slash (''..'' @ CHR ''/'' # (app @ CHR ''/'' # ''public/frontend''))
     = split_slash ''..'' @ split_slash (app @ CHR ''/'' # ''public/frontend'')"
    by (rule split_slash_append)
  moreover have "split_slash ''..'' = [''..'']" by simp
  ultimately show ?thesis by simp
qed

lemma designated_outDir:
  assumes "list_all is_name (ps @ [app, proj])"
  shows "designated_directory (abs_path (ps @ [app, proj])) (''../'' @ app @ ''/public/frontend'')
       = abs_path (ps @ [app, app, ''public'', ''frontend''])"
proof -
  from assms have app: "is_name app" and proj: "is_name proj" by simp_all
  have "path_resolve (abs_path (ps @ [app, proj]))
          [abs_path (ps @ [app, proj]), ''../'' @ app @ ''/public/frontend'']
      = ''/'' @ join_slash (rev (fold (normalize_step False)
            (split_slash (''../'' @ app @ ''/public/frontend'')) (rev (ps @ [app, proj]))))"
    by (rule path_resolve_abs_rel[OF assms]) simp_all
  also have "fold (normalize_step False)
            (split_slash (''../'' @ app @ ''/public/frontend'')) (rev (ps @ [app, proj]))
       = ''frontend'' # ''public'' # app # app # rev ps"
    unfolding split_outDir[OF app] using app proj by (simp add: is_name_def)
  finally show ?thesis by (simp add: designated_directory_def abs_path_def)
qed


lemma designated_outDir_shallow:
  assumes "list_all is_name names" and "length names \<le> 1"
  shows "designated_directory (abs_path names) ''..//public/frontend'' = ''/public/frontend''"
proof -
  have "path_resolve (abs_path names) [abs_path names, ''..//public/frontend'']
      = ''/'' @ join_slash (rev (fold (normalize_step False)
            (split_slash ''..//public/frontend'') (rev names)))"
    by (rule path_resolve_abs_rel[OF assms(1)]) simp_all
  also have "split_slash ''..//public/frontend'' = [''..'', '''', ''public'', ''frontend'']"
    by simp
  also have "fold (normalize_step False) [''..'', '''', ''public'', ''frontend''] (rev names)
       = [''frontend'', ''public'']"
  proof (cases names)
    case Nil
    then show ?thesis by simp
  next
    case (Cons n ns)
    with assms have "ns = []" and "is_name n" by simp_all
    with Cons show ?thesis by (simp add: is_name_def)
  qed
  finally show ?thesis by (simp add: designated_directory_def)
qed

lemma example_shallow_resolves:
  "vite_config id () ''/frontend'' (example_env\<lparr>cwd := ''/frontend''\<rparr>)
   = Inr (example_config\<lparr>resolve := \<lparr> alias = [(''@'', ''/frontend/src'')] \<rparr>,
            build := (build example_config)\<lparr>outDir := ''..//public/frontend''\<rparr>\<rparr>)"
  by (simp add: vite_config_def example_env_def example_site_import example_config_def opt_member_def
      path_resolve_def normalizeString_def normalize_segments_def basename_def)

section \<open>Source maps\<close>






section \<open>Constants of the configuration\<close>





section \<open>The site configuration\<close>

text \<open>
  C4: when the site configuration file cannot be loaded, or the loaded JSON has no
  \<^verbatim>\<open>webserver_port\<close> member, resolution fails with a configuration load error and
  yields no configuration object, whatever the collaborators and the rest of the
  environment are: the failure comes from linking the import, before the body of the
  module is evaluated.
\<close>

theorem missing_port_fails:
  assumes "case common_site_config env of
             None \<Rightarrow> True
           | Some j \<Rightarrow> \<not> has_member j ''webserver_port''"
  shows "vite_config g v d env =
           Inl (ConfigurationLoadError
                  (if common_site_config env = None then ModuleNotFound else NoMatchingExport))"
proof (cases "common_site_config env")
  case None
  then show ?thesis by (simp add: vite_config_def import_named_def)
next
  case (Some j)
  with assms have "\<not> has_member j ''webserver_port''" by simp
  then have "import_named (Some j) ''webserver_port''
               = Inl (ConfigurationLoadError NoMatchingExport)"
    by (rule import_named_no_member)
  with Some show ?thesis by (simp add: vite_config_def)
qed

theorem missing_port_fails_witness:
  "vite_config id () ''/work/apps/myapp/frontend''
       (example_env\<lparr>common_site_config := None\<rparr>)
     = (Inl (ConfigurationLoadError ModuleNotFound) :: error + (unit, js_value) user_config)
   \<and> vite_config id () ''/work/apps/myapp/frontend''
       (example_env\<lparr>common_site_config := Some (JsonObject [(''db_host'', JsonString ''localhost'')])\<rparr>)
     = (Inl (ConfigurationLoadError NoMatchingExport) :: error + (unit, js_value) user_config)"
  using missing_port_fails[of "example_env\<lparr>common_site_config := None\<rparr>"
          id "()" "''/work/apps/myapp/frontend''"]
    missing_port_fails[of
          "example_env\<lparr>common_site_config := Some (JsonObject [(''db_host'', JsonString ''localhost'')])\<rparr>"
          id "()" "''/work/apps/myapp/frontend''"]
  by simp




section \<open>Determinism\<close>



section \<open>The output directory\<close>

text \<open>
  C2, as the code has it: \<^verbatim>\<open>build.outDir\<close> always ends in \<^verbatim>\<open>public/frontend\<close>.
  For a project directory \<^verbatim>\<open>/ps/app/proj\<close> it is the relative path
  \<^verbatim>\<open>../app/public/frontend\<close>, computed from the name of the parent of the working
  directory. Taken from the project root it designates \<^verbatim>\<open>/ps/app/app/public/frontend\<close>:
  the \<^verbatim>\<open>public/frontend\<close> directory of the sibling \<^verbatim>\<open>app\<close> of the project
  directory, which lies inside the project directory exactly when the project directory
  is itself named \<^verbatim>\<open>app\<close>. For a project directory that is the root or lies directly
  below it, the parent has no name: \<^verbatim>\<open>build.outDir\<close> is \<^verbatim>\<open>..//public/frontend\<close>
  and designates \<^verbatim>\<open>/public/frontend\<close>, which lies inside the project directory when
  that is the root or \<^verbatim>\<open>/public\<close>.
\<close>

theorem outDir_by_layout:
  assumes "vite_config g v d env = Inr cfg"
  shows "suffix ''public/frontend'' (outDir (build cfg))
       \<and> (list_all is_name (ps @ [app, proj]) \<and> cwd env = abs_path (ps @ [app, proj]) \<longrightarrow>
            outDir (build cfg) = ''../'' @ app @ ''/public/frontend''
          \<and> designated_directory (cwd env) (outDir (build cfg))
              = abs_path (ps @ [app, app, ''public'', ''frontend''])
          \<and> (nested_inside (designated_directory (cwd env) (outDir (build cfg))) (cwd env)
               \<longleftrightarrow> proj = app))
       \<and> (list_all is_name names \<and> length names \<le> 1 \<and> cwd env = abs_path names \<longrightarrow>
            outDir (build cfg) = ''..//public/frontend''
          \<and> designated_directory (cwd env) (outDir (build cfg)) = ''/public/frontend''
          \<and> (nested_inside (designated_directory (cwd env) (outDir (build cfg))) (cwd env)
               \<longleftrightarrow> names = [] \<or> names = [''public'']))"
proof -
  from vite_config_InrD[OF assms]
  have out: "outDir (build cfg)
               = ''../'' @ basename (path_resolve (cwd env) [''..'']) @ ''/public/frontend''"
    by auto
  have "outDir (build cfg)
          = (''../'' @ basename (path_resolve (cwd env) [''..'']) @ ''/'') @ ''public/frontend''"
    by (simp add: out)
  then have ends: "suffix ''public/frontend'' (outDir (build cfg))"
    unfolding suffix_def by blast
  have deep: "outDir (build cfg) = ''../'' @ app @ ''/public/frontend''
          \<and> designated_directory (cwd env) (outDir (build cfg))
              = abs_path (ps @ [app, app, ''public'', ''frontend''])
          \<and> (nested_inside (designated_directory (cwd env) (outDir (build cfg))) (cwd env)
               \<longleftrightarrow> proj = app)"
    if names: "list_all is_name (ps @ [app, proj])" and wd: "cwd env = abs_path (ps @ [app, proj])"
  proof -
    have parent_names: "list_all is_name (ps @ [app])" using names by simp
    have "path_resolve (cwd env) [''..''] = abs_path (ps @ [app])"
      using path_resolve_parent[OF names] wd by (simp add: butlast_append)
    then have "basename (path_resolve (cwd env) [''..'']) = app"
      using basename_abs_path[OF parent_names] by simp
    with out have o: "outDir (build cfg) = ''../'' @ app @ ''/public/frontend''" by simp
    have dd: "designated_directory (cwd env) (outDir (build cfg))
              = abs_path (ps @ [app, app, ''public'', ''frontend''])"
      using designated_outDir[OF names] wd o by simp
    have out_names: "list_all is_name (ps @ [app, app, ''public'', ''frontend''])"
      using names by (simp add: is_name_def)
    have "nested_inside (abs_path (ps @ [app, app, ''public'', ''frontend'']))
            (abs_path (ps @ [app, proj])) \<longleftrightarrow> proj = app"
      by (simp add: nested_inside_def path_segments_abs_path[OF names]
          path_segments_abs_path[OF out_names])
    with o dd wd show ?thesis by simp
  qed
  have shallow: "outDir (build cfg) = ''..//public/frontend''
          \<and> designated_directory (cwd env) (outDir (build cfg)) = ''/public/frontend''
          \<and> (nested_inside (designated_directory (cwd env) (outDir (build cfg))) (cwd env)
               \<longleftrightarrow> names = [] \<or> names = [''public''])"
    if names: "list_all is_name names" and short: "length names \<le> 1"
      and wd: "cwd env = abs_path names"
  proof -
    from short have parent: "butlast names = []" by (cases names) auto
    have "path_resolve (cwd env) [''..''] = abs_path []"
      using path_resolve_parent[OF names] wd parent by simp
    then have "basename (path_resolve (cwd env) [''..'']) = []"
      using basename_abs_path[of "[]"] by simp
    with out have o: "outDir (build cfg) = ''..//public/frontend''" by simp
    have dd: "designated_directory (cwd env) (outDir (build cfg)) = ''/public/frontend''"
      using designated_outDir_shallow[OF names short] wd o by simp
    have "''/public/frontend'' = abs_path [''public'', ''frontend'']"
      by (simp add: abs_path_def)
    moreover have "list_all is_name [''public'', ''frontend'']"
      by (simp add: is_name_def)
    ultimately have "path_segments ''/public/frontend'' = [''public'', ''frontend'']"
      using path_segments_abs_path[of "[''public'', ''frontend'']"] by simp
    moreover have "path_segments (abs_path names) = names"
      by (rule path_segments_abs_path[OF names])
    ultimately have "nested_inside ''/public/frontend'' (abs_path names)
        \<longleftrightarrow> prefix names [''public'', ''frontend'']"
      by (simp add: nested_inside_def)
    moreover have "prefix names [''public'', ''frontend'']
        \<longleftrightarrow> names = [] \<or> names = [''public'']"
    proof (cases names)
      case Nil
      then show ?thesis by simp
    next
      case (Cons n ns)
      with short have "ns = []" by simp
      with Cons show ?thesis by (auto simp add: prefix_def)
    qed
    ultimately have "nested_inside ''/public/frontend'' (abs_path names)
        \<longleftrightarrow> names = [] \<or> names = [''public'']"
      by simp
    with o dd wd show ?thesis by simp
  qed
  from ends deep shallow show ?thesis by blast
qed

theorem outDir_by_layout_witness:
  "list_all is_name ([''work'', ''apps''] @ [''myapp'', ''frontend''])
   \<and> cwd example_env = abs_path ([''work'', ''apps''] @ [''myapp'', ''frontend''])
   \<and> suffix ''public/frontend'' (outDir (build example_config))
   \<and> outDir (build example_config) = ''../myapp/public/frontend''
   \<and> designated_directory (cwd example_env) (outDir (build example_config))
       = ''/work/apps/myapp/myapp/public/frontend''
   \<and> \<not> nested_inside (designated_directory (cwd example_env) (outDir (build example_config)))
         (cwd example_env)
   \<and> list_all is_name [''frontend''] \<and> length [''frontend''] \<le> 1
   \<and> cwd (example_env\<lparr>cwd := ''/frontend''\<rparr>) = abs_path [''frontend'']
   \<and> designated_directory ''/frontend'' ''..//public/frontend'' = ''/public/frontend''"
proof -
  have names: "list_all is_name ([''work'', ''apps''] @ [''myapp'', ''frontend''])"
    by (simp add: is_name_def)
  have wd: "cwd example_env = abs_path ([''work'', ''apps''] @ [''myapp'', ''frontend''])"
    by (simp add: example_env_def abs_path_def)
  have short: "list_all is_name [''frontend''] \<and> length [''frontend''] \<le> 1
      \<and> cwd (example_env\<lparr>cwd := ''/frontend''\<rparr>) = abs_path [''frontend'']"
    by (simp add: is_name_def abs_path_def)
  show ?thesis
    using outDir_by_layout[OF example_resolves,
          of "[''work'', ''apps'']" "''myapp''" "''frontend''" "[]"]
      outDir_by_layout[OF example_shallow_resolves,
          of "[]" "''apps''" "''frontend''" "[''frontend'']"]
      names wd short
    by (auto simp add: abs_path_def example_config_def)
qed

text \<open>
  The project directory \<^verbatim>\<open>/work/apps/myapp/myapp\<close> bears the name of its parent: the
  output directory then lies inside the project directory.
\<close>

theorem outDir_nested_counterexample:
  "vite_config id () ''/work/apps/myapp/myapp''
       (example_env\<lparr>cwd := ''/work/apps/myapp/myapp''\<rparr>)
     = Inr (example_config\<lparr>resolve := \<lparr> alias = [(''@'', ''/work/apps/myapp/myapp/src'')] \<rparr>\<rparr>)
   \<and> outDir (build (example_config\<lparr>resolve :=
         \<lparr> alias = [(''@'', ''/work/apps/myapp/myapp/src'')] \<rparr>\<rparr>)) = ''../myapp/public/frontend''
   \<and> designated_directory ''/work/apps/myapp/myapp'' ''../myapp/public/frontend''
       = ''/work/apps/myapp/myapp/public/frontend''
   \<and> nested_inside ''/work/apps/myapp/myapp/public/frontend'' ''/work/apps/myapp/myapp''"
  by (simp add: vite_config_def example_env_def example_site_import example_config_def opt_member_def
      path_resolve_def normalizeString_def normalize_segments_def basename_def
      designated_directory_def nested_inside_def path_segments_def)

text \<open>
  C3, as the code has it: with the project root \<^verbatim>\<open>/work/apps/myapp/frontend\<close>,
  \<^verbatim>\<open>build.outDir\<close> is \<^verbatim>\<open>../myapp/public/frontend\<close>, which taken from the project
  root designates \<^verbatim>\<open>/work/apps/myapp/myapp/public/frontend\<close>.
\<close>

theorem outDir_example:
  assumes "cwd env = ''/work/apps/myapp/frontend''" and "vite_config g v d env = Inr cfg"
  shows "outDir (build cfg) = ''../myapp/public/frontend''
       \<and> designated_directory (cwd env) (outDir (build cfg)) = ''/work/apps/myapp/myapp/public/frontend''"
proof -
  from vite_config_InrD[OF assms(2)]
  have "outDir (build cfg) = ''../'' @ basename (path_resolve (cwd env) [''..'']) @ ''/public/frontend''"
    by auto
  then have o: "outDir (build cfg) = ''../myapp/public/frontend''"
    by (simp add: assms(1) path_resolve_example_parent basename_def)
  have "designated_directory ''/work/apps/myapp/frontend'' ''../myapp/public/frontend''
         = ''/work/apps/myapp/myapp/public/frontend''"
    by (simp add: designated_directory_def path_resolve_def normalizeString_def normalize_segments_def)
  with o assms(1) show ?thesis by simp
qed

theorem outDir_example_witness:
  "cwd example_env = ''/work/apps/myapp/frontend''
   \<and> outDir (build example_config) = ''../myapp/public/frontend''
   \<and> designated_directory (cwd example_env) (outDir (build example_config))
       = ''/work/apps/myapp/myapp/public/frontend''"
proof -
  have wd: "cwd example_env = ''/work/apps/myapp/frontend''"
    by (simp add: example_env_def)
  show ?thesis
    using outDir_example[OF wd example_resolves] wd by (simp add: example_config_def)
qed

text \<open>
  Neither the value of \<^verbatim>\<open>build.outDir\<close> nor the directory it designates is
  \<^verbatim>\<open>/work/apps/myapp/public/frontend\<close> there.
\<close>

theorem outDir_example_counterexample:
  "cwd example_env = ''/work/apps/myapp/frontend''
   \<and> vite_config id () ''/work/apps/myapp/frontend'' example_env = Inr example_config
   \<and> outDir (build example_config) \<noteq> ''/work/apps/myapp/public/frontend''
   \<and> designated_directory (cwd example_env) (outDir (build example_config))
       \<noteq> ''/work/apps/myapp/public/frontend''"
  using example_resolves
  by (simp add: example_env_def example_config_def designated_directory_def
      path_resolve_def normalizeString_def normalize_segments_def)

section \<open>Path aliases\<close>



end
